theory Spec2Isabelle
  imports Main "HOL-Library.Word" "HOL-Library.AList"
begin

section \<open>GLib conventions used by the sources\<close>

text \<open>
  \<^verbatim>\<open>guint\<close> is a 32-bit and \<^verbatim>\<open>guint64\<close> a 64-bit unsigned integer. A pointer that may be
  \<^verbatim>\<open>NULL\<close> is an \<open>option\<close>. A reference-counted object (\<^verbatim>\<open>XbSilo\<close>, \<^verbatim>\<open>GBytes\<close>) is identified
  by its address where its reference count matters.
\<close>

type_synonym guint = "32 word"
type_synonym guint64 = "64 word"
type_synonym addr = nat

definition G_MAXUINT64 :: guint64 where
  "G_MAXUINT64 = 18446744073709551615"

text \<open>
  A \<^verbatim>\<open>GError\<close> carries a domain (a quark, that is an interned string), a code and a message.
  The domain and the two codes below are GLib's (\<^verbatim>\<open>gioerror.h\<close>, \<^verbatim>\<open>gioenums.h\<close>).
\<close>

record GError =
  domain :: string
  code :: int
  message :: string

definition G_IO_ERROR :: string where
  "G_IO_ERROR = ''g-io-error-quark''"

definition G_IO_ERROR_FAILED :: int where
  "G_IO_ERROR_FAILED = 0"

definition G_IO_ERROR_NOT_FOUND :: int where
  "G_IO_ERROR_NOT_FOUND = 1"

definition g_error_new_literal :: "string \<Rightarrow> int \<Rightarrow> string \<Rightarrow> GError" where
  "g_error_new_literal d c m = \<lparr>domain = d, code = c, message = m\<rparr>"

definition g_error_matches :: "GError option \<Rightarrow> string \<Rightarrow> int \<Rightarrow> bool" where
  "g_error_matches error d c =
     (case error of None \<Rightarrow> False | Some e \<Rightarrow> domain e = d \<and> code e = c)"

text \<open>
  \<^verbatim>\<open>g_set_error_literal\<close> stores a new error in the caller's error location; a location that
  already holds an error keeps it.
\<close>

definition g_set_error_literal :: "GError option \<Rightarrow> string \<Rightarrow> int \<Rightarrow> string \<Rightarrow> GError option" where
  "g_set_error_literal error d c m =
     (case error of None \<Rightarrow> Some (g_error_new_literal d c m) | Some old \<Rightarrow> Some old)"

text \<open>
  What a call with a \<^verbatim>\<open>GError **\<close> parameter leaves behind: the value returned and the content
  of the error location (which the caller passes empty), or a read outside an array, after
  which nothing is defined.
\<close>

datatype 'a outcome = Returned 'a "GError option" | Invalid_read

text \<open>
  \<^verbatim>\<open>g_strjoin (separator, ...)\<close> takes its strings up to the first \<^verbatim>\<open>NULL\<close> argument and joins
  them with the separator.
\<close>

fun strjoin_args :: "string option list \<Rightarrow> string list" where
  "strjoin_args [] = []"
| "strjoin_args (None # rest) = []"
| "strjoin_args (Some s # rest) = s # strjoin_args rest"

fun strjoin_list :: "string \<Rightarrow> string list \<Rightarrow> string" where
  "strjoin_list separator [] = []"
| "strjoin_list separator [s] = s"
| "strjoin_list separator (s # t # rest) = s @ separator @ strjoin_list separator (t # rest)"

definition g_strjoin :: "string \<Rightarrow> string option list \<Rightarrow> string" where
  "g_strjoin separator args = strjoin_list separator (strjoin_args args)"

definition g_str_has_prefix :: "string \<Rightarrow> string \<Rightarrow> bool" where
  "g_str_has_prefix str pre = (take (length pre) str = pre)"

text \<open>\<^verbatim>\<open>g_ptr_array_index (array, i)\<close> is \<^verbatim>\<open>array->pdata[i]\<close>, with no check of the length.\<close>

definition g_ptr_array_index :: "'a list \<Rightarrow> nat \<Rightarrow> 'a option" where
  "g_ptr_array_index array i = (if i < length array then Some (array ! i) else None)"

subsection \<open>\<^verbatim>\<open>g_ascii_strtoull\<close>\<close>

text \<open>
  GLib's locale-independent \<^verbatim>\<open>strtoull\<close>: white space is skipped, a sign is read, with base 16
  a \<^verbatim>\<open>0x\<close> or \<^verbatim>\<open>0X\<close> is skipped, and digits are consumed while they are below the base. Without
  any digit the value is 0; a value that does not fit is \<^verbatim>\<open>G_MAXUINT64\<close>; a minus sign negates
  the value modulo \<open>2 ^ 64\<close>. The end pointer is not modelled: the sources pass \<^verbatim>\<open>NULL\<close>.
\<close>

definition ISSPACE :: "char \<Rightarrow> bool" where
  "ISSPACE c = (c = CHR '' '' \<or> (of_char c :: nat) \<in> {9, 10, 11, 12, 13})"

definition digit_value :: "char \<Rightarrow> nat option" where
  "digit_value ch =
     (let c = (of_char ch :: nat) in
      if 48 \<le> c \<and> c \<le> 57 then Some (c - 48)
      else if 65 \<le> c \<and> c \<le> 90 then Some (c - 65 + 10)
      else if 97 \<le> c \<and> c \<le> 122 then Some (c - 97 + 10)
      else None)"

fun parse_digits :: "nat \<Rightarrow> string \<Rightarrow> nat \<Rightarrow> bool \<Rightarrow> nat \<Rightarrow> nat \<times> bool \<times> nat" where
  "parse_digits base [] ui64 overflow consumed = (ui64, overflow, consumed)"
| "parse_digits base (ch # s) ui64 overflow consumed =
     (case digit_value ch of
        None \<Rightarrow> (ui64, overflow, consumed)
      | Some c \<Rightarrow>
          if c \<ge> base then (ui64, overflow, consumed)
          else if ui64 > unat G_MAXUINT64 div base
                  \<or> (ui64 = unat G_MAXUINT64 div base \<and> c > unat G_MAXUINT64 mod base)
          then parse_digits base s ui64 True (consumed + 1)
          else parse_digits base s (ui64 * base + c) overflow (consumed + 1))"

definition g_parse_long_long :: "string \<Rightarrow> nat \<Rightarrow> guint64 \<times> bool" where
  "g_parse_long_long nptr base =
     (let s = dropWhile ISSPACE nptr in
      if s = [] then (0, False)
      else
        let negative = (hd s = CHR ''-'');
            s = (if hd s = CHR ''-'' \<or> hd s = CHR ''+'' then tl s else s);
            s = (if base = 16 \<and> take 1 s = ''0'' \<and> (take 1 (drop 1 s) = ''x'' \<or> take 1 (drop 1 s) = ''X'')
                 then drop 2 s else s)
        in case parse_digits base s 0 False 0 of
             (ui64, overflow, consumed) \<Rightarrow>
               if consumed = 0 then (0, negative)
               else if overflow then (G_MAXUINT64, negative)
               else (of_nat ui64, negative))"

definition g_ascii_strtoull :: "string \<Rightarrow> nat \<Rightarrow> guint64" where
  "g_ascii_strtoull nptr base =
     (case g_parse_long_long nptr base of (result, negative) \<Rightarrow>
        if negative then - result else result)"

section \<open>The silo, as the node view sees it\<close>

text \<open>
  \<^verbatim>\<open>xb-silo.c\<close> is not among the sources. A silo node (\<^verbatim>\<open>XbSiloNode *\<close>) is an offset into the
  blob. The silo is the object at \<open>silo_object\<close> together with the navigation primitives that
  \<^verbatim>\<open>xb-node.c\<close> calls on it; each field has the name of the function it stands for, and
  nothing is assumed about what the primitives return.
\<close>

type_synonym XbSiloNode = nat

record XbSilo =
  silo_object :: addr
  xb_silo_get_sroot :: "XbSiloNode option"
  xb_silo_node_get_parent :: "XbSiloNode \<Rightarrow> XbSiloNode option"
  xb_silo_node_get_next :: "XbSiloNode \<Rightarrow> XbSiloNode option"
  xb_silo_node_get_child :: "XbSiloNode \<Rightarrow> XbSiloNode option"
  xb_silo_node_get_text :: "XbSiloNode \<Rightarrow> string option"
  xb_silo_node_get_element :: "XbSiloNode \<Rightarrow> string option"
  xb_silo_node_get_attr :: "XbSiloNode \<Rightarrow> string \<Rightarrow> string option"
  xb_silo_node_get_depth :: "XbSiloNode \<Rightarrow> guint"

section \<open>The node view (\<^verbatim>\<open>xb-node.c\<close>)\<close>

text \<open>
  \<^verbatim>\<open>struct _XbNode\<close>: the parent instance, of which the keyed data list matters (key and the
  address of the \<^verbatim>\<open>GBytes\<close> stored under it), the silo and the silo node.
\<close>

record XbNode =
  qdata :: "(string \<times> addr) list"
  silo :: XbSilo
  sn :: XbSiloNode

text \<open>
  Modelled from the spec: \<^verbatim>\<open>xb_silo_node_create\<close>, the function of \<^verbatim>\<open>xb-silo.c\<close> that wraps a
  silo node in a node view, is not among the sources. Section 4.1: "Given a silo reference
  and a silo-node offset, produce a node view", a handle "pairing a silo reference with a
  single node offset" whose node-data map is its own.
\<close>

definition xb_silo_node_create :: "XbSilo \<Rightarrow> XbSiloNode \<Rightarrow> XbNode" where
  "xb_silo_node_create self s = \<lparr>qdata = [], silo = self, sn = s\<rparr>"

text \<open>
  The silo-level evaluator \<^verbatim>\<open>xb_silo_query_with_root (silo, n, xpath, limit, error)\<close> and the
  exporter \<^verbatim>\<open>xb_silo_export_with_root (silo, n, flags, error)\<close> are not among the sources
  either: the functions below take them as parameters. \<open>Inl e\<close> is a \<^verbatim>\<open>NULL\<close> result with the
  error \<open>e\<close> stored, \<open>Inr\<close> a result with the error location untouched.
\<close>

text \<open>Modelled from the spec: the export flag set of section 6 (declared in \<^verbatim>\<open>xb-node.h\<close>).\<close>

datatype XbNodeExportFlag =
  XB_NODE_EXPORT_FLAG_ADD_HEADER
| XB_NODE_EXPORT_FLAG_FORMAT_MULTILINE
| XB_NODE_EXPORT_FLAG_FORMAT_INDENT
| XB_NODE_EXPORT_FLAG_INCLUDE_SIBLINGS

type_synonym XbNodeExportFlags = "XbNodeExportFlag set"

definition XB_NODE_EXPORT_FLAG_NONE :: XbNodeExportFlags where
  "XB_NODE_EXPORT_FLAG_NONE = {}"

type_synonym evaluator = "XbSilo \<Rightarrow> XbNode option \<Rightarrow> string \<Rightarrow> guint \<Rightarrow> GError + XbNode list"
type_synonym exporter = "XbSilo \<Rightarrow> XbNode option \<Rightarrow> XbNodeExportFlags \<Rightarrow> GError + string"

subsection \<open>Node data\<close>

text \<open>
  Reference counts of the objects the node view points to, by address. \<^verbatim>\<open>g_bytes_ref\<close> and
  \<^verbatim>\<open>g_bytes_unref\<close> add and remove one reference; an object whose count reaches 0 is released.
\<close>

type_synonym refcounts = "addr \<Rightarrow> nat"

definition g_bytes_ref :: "addr \<Rightarrow> refcounts \<Rightarrow> refcounts" where
  "g_bytes_ref b rc = rc(b := rc b + 1)"

definition g_bytes_unref :: "addr \<Rightarrow> refcounts \<Rightarrow> refcounts" where
  "g_bytes_unref b rc = rc(b := rc b - 1)"

definition g_object_unref :: "addr \<Rightarrow> refcounts \<Rightarrow> refcounts" where
  "g_object_unref obj rc = rc(obj := rc obj - 1)"

definition g_object_get_data :: "XbNode \<Rightarrow> string \<Rightarrow> addr option" where
  "g_object_get_data object key = map_of (qdata object) key"

text \<open>
  \<^verbatim>\<open>g_object_set_data_full (object, key, data, destroy)\<close> stores \<open>data\<close> under \<open>key\<close> and calls
  the destroy function, here \<^verbatim>\<open>g_bytes_unref\<close>, on the entry it replaces.
\<close>

definition g_object_set_data_full :: "XbNode \<Rightarrow> string \<Rightarrow> addr \<Rightarrow> refcounts \<Rightarrow> XbNode \<times> refcounts" where
  "g_object_set_data_full object key data rc =
     (object\<lparr>qdata := AList.update key data (qdata object)\<rparr>,
      (case map_of (qdata object) key of None \<Rightarrow> rc | Some old \<Rightarrow> g_bytes_unref old rc))"

definition xb_node_get_data :: "XbNode option \<Rightarrow> string option \<Rightarrow> addr option" where
  "xb_node_get_data self key =
     (case self of None \<Rightarrow> None
      | Some n \<Rightarrow> (case key of None \<Rightarrow> None | Some k \<Rightarrow> g_object_get_data n k))"

text \<open>
  \<^verbatim>\<open>xb_node_set_data\<close> returns nothing; the model returns the node view as the call leaves it
  and the reference counts.
\<close>

definition xb_node_set_data ::
    "XbNode option \<Rightarrow> string option \<Rightarrow> addr option \<Rightarrow> refcounts \<Rightarrow> XbNode option \<times> refcounts" where
  "xb_node_set_data self key data rc =
     (case self of None \<Rightarrow> (self, rc)
      | Some n \<Rightarrow>
         (case key of None \<Rightarrow> (self, rc)
          | Some k \<Rightarrow>
             (case data of None \<Rightarrow> (self, rc)
              | Some d \<Rightarrow>
                  (case g_object_set_data_full n k d (g_bytes_ref d rc) of
                     (n', rc') \<Rightarrow> (Some n', rc')))))"

text \<open>
  \<^verbatim>\<open>xb_node_new\<close>: \<^verbatim>\<open>g_object_new\<close> gives an instance with an empty data list, and the two
  assignments store the pointers. No reference is taken, so the counts come back as they
  were.
\<close>

definition xb_node_new :: "XbSilo \<Rightarrow> XbSiloNode \<Rightarrow> refcounts \<Rightarrow> XbNode \<times> refcounts" where
  "xb_node_new silo0 sn0 rc = (\<lparr>qdata = [], silo = silo0, sn = sn0\<rparr>, rc)"

text \<open>
  \<^verbatim>\<open>xb_node_finalize\<close> only chains up to the parent class, whose finalizer clears the data
  list, calling the destroy function of every entry.
\<close>

definition g_object_finalize :: "XbNode \<Rightarrow> refcounts \<Rightarrow> refcounts" where
  "g_object_finalize obj rc = fold (\<lambda>entry. g_bytes_unref (snd entry)) (qdata obj) rc"

definition xb_node_finalize :: "XbNode \<Rightarrow> refcounts \<Rightarrow> refcounts" where
  "xb_node_finalize obj rc = g_object_finalize obj rc"

subsection \<open>Accessors and traversal\<close>

text \<open>
  \<^verbatim>\<open>xb_node_get_sn\<close> and \<^verbatim>\<open>xb_node_get_silo\<close> dereference \<open>self\<close> with no check; they are
  private to the library and only called on a node view that has passed one.
\<close>

definition xb_node_get_sn :: "XbNode \<Rightarrow> XbSiloNode" where
  "xb_node_get_sn self = sn self"

definition xb_node_get_silo :: "XbNode \<Rightarrow> XbSilo" where
  "xb_node_get_silo self = silo self"

definition xb_node_get_root :: "XbNode option \<Rightarrow> XbNode option" where
  "xb_node_get_root self =
     (case self of None \<Rightarrow> None
      | Some n \<Rightarrow>
         (case xb_silo_get_sroot (silo n) of
            None \<Rightarrow> None
          | Some s \<Rightarrow> Some (xb_silo_node_create (silo n) s)))"

definition xb_node_get_parent :: "XbNode option \<Rightarrow> XbNode option" where
  "xb_node_get_parent self =
     (case self of None \<Rightarrow> None
      | Some n \<Rightarrow>
         (case xb_silo_node_get_parent (silo n) (sn n) of
            None \<Rightarrow> None
          | Some s \<Rightarrow> Some (xb_silo_node_create (silo n) s)))"

definition xb_node_get_next :: "XbNode option \<Rightarrow> XbNode option" where
  "xb_node_get_next self =
     (case self of None \<Rightarrow> None
      | Some n \<Rightarrow>
         (case xb_silo_node_get_next (silo n) (sn n) of
            None \<Rightarrow> None
          | Some s \<Rightarrow> Some (xb_silo_node_create (silo n) s)))"

definition xb_node_get_child :: "XbNode option \<Rightarrow> XbNode option" where
  "xb_node_get_child self =
     (case self of None \<Rightarrow> None
      | Some n \<Rightarrow>
         (case xb_silo_node_get_child (silo n) (sn n) of
            None \<Rightarrow> None
          | Some s \<Rightarrow> Some (xb_silo_node_create (silo n) s)))"

text \<open>
  The loop of \<^verbatim>\<open>xb_node_get_children\<close>. It runs for as long as \<^verbatim>\<open>xb_node_get_next\<close> gives
  a node, so it is a partial function: \<open>None\<close> is a loop that never ends.
\<close>

partial_function (option) xb_node_get_children_loop ::
    "XbNode option \<Rightarrow> XbNode list \<Rightarrow> XbNode list option" where
  "xb_node_get_children_loop n array =
     (case n of
        None \<Rightarrow> Some array
      | Some v \<Rightarrow> xb_node_get_children_loop (xb_node_get_next (Some v)) (array @ [v]))"

text \<open>
  \<^verbatim>\<open>xb_node_get_children\<close> has no check of \<open>self\<close>. The inner \<open>option\<close> is the pointer it
  returns, which is the array it allocated and never \<^verbatim>\<open>NULL\<close>.
\<close>

definition xb_node_get_children :: "XbNode option \<Rightarrow> XbNode list option option" where
  "xb_node_get_children self =
     map_option Some (xb_node_get_children_loop (xb_node_get_child self) [])"

definition xb_node_get_text :: "XbNode option \<Rightarrow> string option" where
  "xb_node_get_text self =
     (case self of None \<Rightarrow> None | Some n \<Rightarrow> xb_silo_node_get_text (silo n) (sn n))"

definition xb_node_get_element :: "XbNode option \<Rightarrow> string option" where
  "xb_node_get_element self =
     (case self of None \<Rightarrow> None | Some n \<Rightarrow> xb_silo_node_get_element (silo n) (sn n))"

definition xb_node_get_attr :: "XbNode option \<Rightarrow> string option \<Rightarrow> string option" where
  "xb_node_get_attr self name =
     (case self of None \<Rightarrow> None
      | Some n \<Rightarrow>
         (case name of None \<Rightarrow> None
          | Some a \<Rightarrow> xb_silo_node_get_attr (silo n) (sn n) a))"

definition xb_node_get_depth :: "XbNode option \<Rightarrow> guint" where
  "xb_node_get_depth self =
     (case self of None \<Rightarrow> 0 | Some n \<Rightarrow> xb_silo_node_get_depth (silo n) (sn n))"

subsection \<open>Queries\<close>

definition xb_node_query ::
    "evaluator \<Rightarrow> XbNode option \<Rightarrow> string option \<Rightarrow> guint \<Rightarrow> XbNode list option outcome" where
  "xb_node_query xb_silo_query_with_root self xpath limit =
     (case self of None \<Rightarrow> Returned None None
      | Some n \<Rightarrow>
         (case xpath of None \<Rightarrow> Returned None None
          | Some x \<Rightarrow>
              (let xpath2 = g_strjoin ''/'' [xb_node_get_element self, Some x] in
               case xb_silo_query_with_root (xb_node_get_silo n) self xpath2 limit of
                 Inl e \<Rightarrow> Returned None (Some e)
               | Inr results \<Rightarrow> Returned (Some results) None)))"

definition xb_node_query_first ::
    "evaluator \<Rightarrow> XbNode option \<Rightarrow> string option \<Rightarrow> XbNode option outcome" where
  "xb_node_query_first xb_silo_query_with_root self xpath =
     (case self of None \<Rightarrow> Returned None None
      | Some n \<Rightarrow>
         (case xpath of None \<Rightarrow> Returned None None
          | Some x \<Rightarrow>
              (let xpath2 = g_strjoin ''/'' [xb_node_get_element self, Some x] in
               case xb_silo_query_with_root (xb_node_get_silo n) self xpath2 1 of
                 Inl e \<Rightarrow> Returned None (Some e)
               | Inr results \<Rightarrow>
                   (case g_ptr_array_index results 0 of
                      None \<Rightarrow> Invalid_read
                    | Some r \<Rightarrow> Returned (Some r) None))))"

definition xb_node_query_text ::
    "evaluator \<Rightarrow> XbNode option \<Rightarrow> string option \<Rightarrow> string option outcome" where
  "xb_node_query_text xb_silo_query_with_root self xpath =
     (case self of None \<Rightarrow> Returned None None
      | Some _ \<Rightarrow>
         (case xpath of None \<Rightarrow> Returned None None
          | Some _ \<Rightarrow>
              (case xb_node_query_first xb_silo_query_with_root self xpath of
                 Invalid_read \<Rightarrow> Invalid_read
               | Returned None error \<Rightarrow> Returned None error
               | Returned (Some n) error \<Rightarrow>
                   (case xb_node_get_text (Some n) of
                      None \<Rightarrow>
                        Returned None
                          (g_set_error_literal error G_IO_ERROR G_IO_ERROR_NOT_FOUND ''no text data'')
                    | Some tmp \<Rightarrow> Returned (Some tmp) error))))"

definition xb_node_export ::
    "exporter \<Rightarrow> XbNode option \<Rightarrow> XbNodeExportFlags \<Rightarrow> string option outcome" where
  "xb_node_export xb_silo_export_with_root self flags =
     (case self of None \<Rightarrow> Returned None None
      | Some n \<Rightarrow>
         (case xb_silo_export_with_root (xb_node_get_silo n) self flags of
            Inl e \<Rightarrow> Returned None (Some e)
          | Inr xml \<Rightarrow> Returned (Some xml) None))"

definition xb_node_query_export ::
    "evaluator \<Rightarrow> exporter \<Rightarrow> XbNode option \<Rightarrow> string option \<Rightarrow> string option outcome" where
  "xb_node_query_export xb_silo_query_with_root xb_silo_export_with_root self xpath =
     (case self of None \<Rightarrow> Returned None None
      | Some _ \<Rightarrow>
         (case xpath of None \<Rightarrow> Returned None None
          | Some _ \<Rightarrow>
              (case xb_node_query_first xb_silo_query_with_root self xpath of
                 Invalid_read \<Rightarrow> Invalid_read
               | Returned None error \<Rightarrow> Returned None error
               | Returned (Some n) error \<Rightarrow>
                   xb_node_export xb_silo_export_with_root (Some n) XB_NODE_EXPORT_FLAG_NONE)))"

definition xb_node_query_text_as_uint ::
    "evaluator \<Rightarrow> XbNode option \<Rightarrow> string option \<Rightarrow> guint64 outcome" where
  "xb_node_query_text_as_uint xb_silo_query_with_root self xpath =
     (case self of None \<Rightarrow> Returned G_MAXUINT64 None
      | Some _ \<Rightarrow>
         (case xpath of None \<Rightarrow> Returned G_MAXUINT64 None
          | Some _ \<Rightarrow>
              (case xb_node_query_first xb_silo_query_with_root self xpath of
                 Invalid_read \<Rightarrow> Invalid_read
               | Returned None error \<Rightarrow> Returned G_MAXUINT64 error
               | Returned (Some n) error \<Rightarrow>
                   (case xb_node_get_text (Some n) of
                      None \<Rightarrow>
                        Returned G_MAXUINT64
                          (g_set_error_literal error G_IO_ERROR G_IO_ERROR_NOT_FOUND ''no text data'')
                    | Some tmp \<Rightarrow>
                        if g_str_has_prefix tmp ''0x''
                        then Returned (g_ascii_strtoull (drop 2 tmp) 16) error
                        else Returned (g_ascii_strtoull tmp 10) error))))"

section \<open>The command line tool (\<^verbatim>\<open>xb-tool.c\<close>)\<close>

text \<open>
  Standard output is the list of the strings handed to \<^verbatim>\<open>g_print\<close>, one per call. A \<^verbatim>\<open>NULL\<close>
  string printed with \<^verbatim>\<open>%s\<close> comes out as \<^verbatim>\<open>(null)\<close>.
\<close>

type_synonym stdout = "string list"



definition print_s :: "string option \<Rightarrow> string" where
  "print_s str = (case str of None \<Rightarrow> ''(null)'' | Some s \<Rightarrow> s)"







text \<open>
  The callback of a command is a pointer to one of the four command functions; the model
  names the function and calls it through \<open>call\<close> below.
\<close>

datatype FuUtilPrivateCb = XB_TOOL_DUMP | XB_TOOL_EXPORT | XB_TOOL_QUERY | XB_TOOL_COMPILE

record FuUtilItem =
  name :: string
  arguments :: "string option"
  description :: string
  callback :: FuUtilPrivateCb

record XbToolPrivate =
  cmd_array :: "FuUtilItem list"
  force :: bool

text \<open>
  Modelled from the spec: the load and compile flags (declared in \<^verbatim>\<open>xb-silo.h\<close> and
  \<^verbatim>\<open>xb-builder.h\<close>), as flag sets like the export flags of section 6.
\<close>

datatype XbSiloLoadFlag = XB_SILO_LOAD_FLAG_NO_MAGIC

datatype XbBuilderCompileFlag =
  XB_BUILDER_COMPILE_FLAG_LITERAL_TEXT
| XB_BUILDER_COMPILE_FLAG_NATIVE_LANGS

text \<open>
  What the tool calls outside \<^verbatim>\<open>xb-tool.c\<close>: the silo and the builder of the library, and
  GLib's option parser. They are parameters. A silo is loaded from a path; the builder is
  known by the files imported so far; the option parser gives back \<open>verbose\<close>, \<open>force\<close> and
  the remaining arguments, or an error; the help text is made from the summary.
\<close>

record collaborators =
  xb_silo_load_from_file :: "string \<Rightarrow> XbSiloLoadFlag set \<Rightarrow> GError + XbSilo"
  xb_silo_to_string :: "XbSilo \<Rightarrow> GError + string"
  xb_silo_export :: "XbSilo \<Rightarrow> XbNodeExportFlags \<Rightarrow> GError + string"
  xb_silo_query_first :: "XbSilo \<Rightarrow> string \<Rightarrow> GError + XbNode"
  xb_builder_import_file :: "string list \<Rightarrow> string \<Rightarrow> GError option"
  xb_builder_ensure :: "string list \<Rightarrow> string \<Rightarrow> XbBuilderCompileFlag set \<Rightarrow> GError + XbSilo"
  g_option_context_parse :: "string list \<Rightarrow> GError + (bool \<times> bool \<times> string list)"
  g_option_context_get_help :: "string \<Rightarrow> string"






definition xb_tool_dump_error :: GError where
  "xb_tool_dump_error =
     g_error_new_literal G_IO_ERROR G_IO_ERROR_FAILED
       (''Invalid arguments, expected '' @ ''FILENAME'' @ '' -- e.g. `example.xmlb`'')"

definition xb_tool_query_error :: GError where
  "xb_tool_query_error =
     g_error_new_literal G_IO_ERROR G_IO_ERROR_FAILED
       (''Invalid arguments, expected '' @ ''FILENAME QUERY'' @ '' -- e.g. `example.xmlb`'')"

definition xb_tool_compile_error :: GError where
  "xb_tool_compile_error =
     g_error_new_literal G_IO_ERROR G_IO_ERROR_FAILED
       (''Invalid arguments, expected '' @ ''FILE-IN FILE-OUT'' @ '' -- e.g. `example.xml example.xmlb`'')"

text \<open>
  The loops of \<^verbatim>\<open>xb_tool_dump\<close> and \<^verbatim>\<open>xb_tool_export\<close> run once for every value and load
  \<^verbatim>\<open>values[0]\<close> each time. What was printed before a failure stays printed.
\<close>

fun xb_tool_dump_loop ::
    "collaborators \<Rightarrow> XbSiloLoadFlag set \<Rightarrow> string \<Rightarrow> string list \<Rightarrow> stdout \<Rightarrow> (GError + unit) \<times> stdout" where
  "xb_tool_dump_loop env flags values0 [] out = (Inr (), out)"
| "xb_tool_dump_loop env flags values0 (v # rest) out =
     (case xb_silo_load_from_file env values0 flags of
        Inl e \<Rightarrow> (Inl e, out)
      | Inr silo0 \<Rightarrow>
          (case xb_silo_to_string env silo0 of
             Inl e \<Rightarrow> (Inl e, out)
           | Inr str \<Rightarrow> xb_tool_dump_loop env flags values0 rest (out @ [str])))"

definition xb_tool_dump ::
    "collaborators \<Rightarrow> XbToolPrivate \<Rightarrow> string list \<Rightarrow> (GError + unit) \<times> stdout" where
  "xb_tool_dump env priv values =
     (if length values < 1 then (Inl xb_tool_dump_error, [])
      else
        let flags = (if force priv then {XB_SILO_LOAD_FLAG_NO_MAGIC} else {})
        in xb_tool_dump_loop env flags (values ! 0) values [])"

fun xb_tool_export_loop ::
    "collaborators \<Rightarrow> XbSiloLoadFlag set \<Rightarrow> string \<Rightarrow> string list \<Rightarrow> stdout \<Rightarrow> (GError + unit) \<times> stdout" where
  "xb_tool_export_loop env flags values0 [] out = (Inr (), out)"
| "xb_tool_export_loop env flags values0 (v # rest) out =
     (case xb_silo_load_from_file env values0 flags of
        Inl e \<Rightarrow> (Inl e, out)
      | Inr silo0 \<Rightarrow>
          (case xb_silo_export env silo0
                  {XB_NODE_EXPORT_FLAG_ADD_HEADER, XB_NODE_EXPORT_FLAG_FORMAT_MULTILINE,
                   XB_NODE_EXPORT_FLAG_FORMAT_INDENT, XB_NODE_EXPORT_FLAG_INCLUDE_SIBLINGS} of
             Inl e \<Rightarrow> (Inl e, out)
           | Inr str \<Rightarrow> xb_tool_export_loop env flags values0 rest (out @ [str])))"

definition xb_tool_export ::
    "collaborators \<Rightarrow> XbToolPrivate \<Rightarrow> string list \<Rightarrow> (GError + unit) \<times> stdout" where
  "xb_tool_export env priv values =
     (if length values < 1 then (Inl xb_tool_dump_error, [])
      else
        let flags = (if force priv then {XB_SILO_LOAD_FLAG_NO_MAGIC} else {})
        in xb_tool_export_loop env flags (values ! 0) values [])"

definition xb_tool_query ::
    "collaborators \<Rightarrow> XbToolPrivate \<Rightarrow> string list \<Rightarrow> (GError + unit) \<times> stdout" where
  "xb_tool_query env priv values =
     (if length values \<noteq> 2 then (Inl xb_tool_query_error, [])
      else
        case xb_silo_load_from_file env (values ! 0) {} of
          Inl e \<Rightarrow> (Inl e, [])
        | Inr silo0 \<Rightarrow>
            (case xb_silo_query_first env silo0 (values ! 1) of
               Inl e \<Rightarrow> (Inl e, [])
             | Inr n \<Rightarrow>
                 (Inr (), [''RESULT: '' @ print_s (xb_node_get_text (Some n)) @ ''\<newline>''])))"

fun xb_tool_compile_loop :: "collaborators \<Rightarrow> string list \<Rightarrow> string list \<Rightarrow> GError + string list" where
  "xb_tool_compile_loop env builder [] = Inr builder"
| "xb_tool_compile_loop env builder (v # rest) =
     (case xb_builder_import_file env builder v of
        Some e \<Rightarrow> Inl e
      | None \<Rightarrow> xb_tool_compile_loop env (builder @ [v]) rest)"

definition xb_tool_compile ::
    "collaborators \<Rightarrow> XbToolPrivate \<Rightarrow> string list \<Rightarrow> (GError + unit) \<times> stdout" where
  "xb_tool_compile env priv values =
     (if length values < 2 then (Inl xb_tool_compile_error, [])
      else
        case xb_tool_compile_loop env [] (drop 1 values) of
          Inl e \<Rightarrow> (Inl e, [])
        | Inr builder \<Rightarrow>
            (case xb_builder_ensure env builder (values ! 0)
                    {XB_BUILDER_COMPILE_FLAG_LITERAL_TEXT, XB_BUILDER_COMPILE_FLAG_NATIVE_LANGS} of
               Inl e \<Rightarrow> (Inl e, [])
             | Inr silo0 \<Rightarrow> (Inr (), [])))"






section \<open>Notions of the specification\<close>


text \<open>How many entries of the node-data map of a node view hold the byte buffer at \<open>a\<close>.\<close>

definition held :: "XbNode \<Rightarrow> addr \<Rightarrow> nat" where
  "held n a = count_list (map snd (qdata n)) a"

section \<open>Example silos\<close>

text \<open>
  The silo of \<^verbatim>\<open><a><b>text</b></a>\<close>, with \<^verbatim>\<open>a\<close> at offset 0 and \<^verbatim>\<open>b\<close> at offset 1; without a
  text it is the silo of \<^verbatim>\<open><a><b/></a>\<close>.
\<close>

definition example_silo :: "string option \<Rightarrow> XbSilo" where
  "example_silo text0 =
     \<lparr>silo_object = 100,
      xb_silo_get_sroot = Some 0,
      xb_silo_node_get_parent = (\<lambda>s. if s = 1 then Some 0 else None),
      xb_silo_node_get_next = (\<lambda>s. None),
      xb_silo_node_get_child = (\<lambda>s. if s = 0 then Some 1 else None),
      xb_silo_node_get_text = (\<lambda>s. if s = 1 then text0 else None),
      xb_silo_node_get_element = (\<lambda>s. if s = 0 then Some ''a'' else if s = 1 then Some ''b'' else None),
      xb_silo_node_get_attr = (\<lambda>s a. None),
      xb_silo_node_get_depth = (\<lambda>s. if s = 1 then 1 else 0)\<rparr>"


text \<open>
  What an evaluator answers on the first silo: the expression \<^verbatim>\<open>a/b\<close> matches the element at
  offset 1 and the other expressions match nothing, which is the error \<^emph>\<open>not-found\<close>.
\<close>

definition no_results :: GError where
  "no_results = g_error_new_literal G_IO_ERROR G_IO_ERROR_NOT_FOUND ''no results''"

definition example_evaluator :: evaluator where
  "example_evaluator S anchor xpath limit =
     (if xpath = ''a/b'' then Inr [xb_silo_node_create S 1] else Inl no_results)"

text \<open>
  An evaluator that shows what it was asked: it fails on every expression, with the
  expression as the message of the error.
\<close>

definition echo_evaluator :: evaluator where
  "echo_evaluator S anchor xpath limit =
     Inl (g_error_new_literal G_IO_ERROR G_IO_ERROR_NOT_FOUND xpath)"

text \<open>The first silo, with the element names unset.\<close>

definition nameless_silo :: XbSilo where
  "nameless_silo = (example_silo None)\<lparr>xb_silo_node_get_element := (\<lambda>s. None)\<rparr>"


definition example_root :: "string option \<Rightarrow> XbNode" where
  "example_root text0 = xb_silo_node_create (example_silo text0) 0"


text \<open>Reference counts when the only reference to the silo at address 100 is its creator's.\<close>

definition one_owner :: refcounts where
  "one_owner = (\<lambda>a. if a = 100 then 1 else 0)"

section \<open>Facts about the library functions\<close>

lemma g_strjoin_element:
  "g_strjoin ''/'' [Some e, Some x] = e @ ''/'' @ x"
  by (simp add: g_strjoin_def)

text \<open>With no element name, \<^verbatim>\<open>g_strjoin\<close> stops at once and the expression is lost.\<close>

lemma g_strjoin_no_element:
  "g_strjoin ''/'' [None, Some x] = []"
  by (simp add: g_strjoin_def)

lemma g_ptr_array_index_0:
  "g_ptr_array_index rs 0 = (case rs of [] \<Rightarrow> None | r # _ \<Rightarrow> Some r)"
  by (simp add: g_ptr_array_index_def split: list.split)

lemma xb_node_query_first_eval:
  "xb_node_query_first Q (Some n) (Some x) =
     (case Q (silo n) (Some n) (g_strjoin ''/'' [xb_node_get_element (Some n), Some x]) 1 of
        Inl e \<Rightarrow> Returned None (Some e)
      | Inr [] \<Rightarrow> Invalid_read
      | Inr (r # rs) \<Rightarrow> Returned (Some r) None)"
  by (simp add: xb_node_query_first_def xb_node_get_silo_def g_ptr_array_index_0
           split: sum.split list.split)

lemma example_query_first:
  "xb_node_query_first example_evaluator (Some (example_root t)) (Some ''b'') =
     Returned (Some (xb_silo_node_create (example_silo t) 1)) None"
  by (simp add: xb_node_query_first_eval example_evaluator_def example_root_def
        xb_silo_node_create_def example_silo_def xb_node_get_element_def g_strjoin_element)

lemma example_text:
  "xb_node_get_text (Some (xb_silo_node_create (example_silo t) (Suc 0))) = t"
  by (simp add: xb_node_get_text_def xb_silo_node_create_def example_silo_def)

lemmas strtoull_defs =
  g_ascii_strtoull_def g_parse_long_long_def ISSPACE_def digit_value_def G_MAXUINT64_def

lemma strtoull_nope: "g_ascii_strtoull ''nope'' 10 = 0"
  by (simp add: strtoull_defs)

lemma strtoull_2a: "g_ascii_strtoull ''2a'' 16 = 42"
  by (simp add: strtoull_defs)

lemma strtoull_max: "g_ascii_strtoull ''18446744073709551615'' 10 = G_MAXUINT64"
  by (simp add: strtoull_defs)

lemma strtoull_not_a_number:
  assumes "t = [] \<or> (\<not> ISSPACE (hd t) \<and> hd t \<noteq> CHR ''-'' \<and> hd t \<noteq> CHR ''+''
             \<and> (case digit_value (hd t) of None \<Rightarrow> True | Some c \<Rightarrow> base \<le> c))"
  shows "g_ascii_strtoull t base = 0"
proof (cases t)
  case Nil
  then show ?thesis by (simp add: g_ascii_strtoull_def g_parse_long_long_def)
next
  case (Cons c s)
  with assms have c: "\<not> ISSPACE c" "c \<noteq> CHR ''-''" "c \<noteq> CHR ''+''"
      "(case digit_value c of None \<Rightarrow> True | Some d \<Rightarrow> base \<le> d)"
    by simp_all
  have zero: "c = CHR ''0'' \<Longrightarrow> base \<noteq> 16"
    using c(4) by (auto simp: digit_value_def)
  have "parse_digits base (c # s) 0 False 0 = (0, False, 0)"
    using c(4) by (simp split: option.splits)
  then show ?thesis
    using c zero Cons
    by (auto simp: g_ascii_strtoull_def g_parse_long_long_def Let_def)
qed

lemma example_element:
  "xb_node_get_element (Some (example_root t)) = Some ''a''"
  by (simp add: xb_node_get_element_def example_root_def xb_silo_node_create_def example_silo_def)

lemma example_evaluator_b:
  "example_evaluator (silo (example_root t)) (Some (example_root t)) (''a'' @ ''/'' @ ''b'') limit
     = Inr [xb_silo_node_create (example_silo t) 1]"
  by (simp add: example_evaluator_def example_root_def xb_silo_node_create_def)

lemma example_evaluator_c:
  "example_evaluator (silo (example_root t)) (Some (example_root t)) (''a'' @ ''/'' @ ''c'') limit
     = Inl no_results"
  by (simp add: example_evaluator_def)

section \<open>Traversal\<close>

text \<open>
  The node view that the silo makes is on that silo, at the offset given, and has no node
  data of its own yet.
\<close>

lemma xb_silo_node_create_fields:
  "silo (xb_silo_node_create S s) = S
   \<and> sn (xb_silo_node_create S s) = s
   \<and> qdata (xb_silo_node_create S s) = []"
  by (simp add: xb_silo_node_create_def)

text \<open>
  Claim C5. \<open>root\<close>, \<open>parent\<close>, \<open>next\<close> and \<open>child\<close> give none when the primitive of the silo
  gives none, and otherwise the node view that the silo makes, on the same silo, for the
  offset the primitive gave. The result is a node view or none: these functions have no
  error to report.
\<close>

theorem traversal_returns_none_on_absence:
  "xb_node_get_root (Some n) =
     (case xb_silo_get_sroot (silo n) of
        None \<Rightarrow> None | Some s \<Rightarrow> Some (xb_silo_node_create (silo n) s))
   \<and> xb_node_get_parent (Some n) =
     (case xb_silo_node_get_parent (silo n) (sn n) of
        None \<Rightarrow> None | Some s \<Rightarrow> Some (xb_silo_node_create (silo n) s))
   \<and> xb_node_get_next (Some n) =
     (case xb_silo_node_get_next (silo n) (sn n) of
        None \<Rightarrow> None | Some s \<Rightarrow> Some (xb_silo_node_create (silo n) s))
   \<and> xb_node_get_child (Some n) =
     (case xb_silo_node_get_child (silo n) (sn n) of
        None \<Rightarrow> None | Some s \<Rightarrow> Some (xb_silo_node_create (silo n) s))"
  by (simp add: xb_node_get_root_def xb_node_get_parent_def xb_node_get_next_def
        xb_node_get_child_def)

text \<open>On the example: the root has no parent and no next sibling, and its child is \<^verbatim>\<open>b\<close>.\<close>

lemma example_traversal:
  "xb_node_get_parent (Some (example_root t)) = None
   \<and> xb_node_get_next (Some (example_root t)) = None
   \<and> xb_node_get_child (Some (example_root t)) = Some (xb_silo_node_create (example_silo t) 1)
   \<and> xb_node_get_root (Some (xb_silo_node_create (example_silo t) 1)) = Some (example_root t)"
  by (simp add: xb_node_get_parent_def xb_node_get_next_def xb_node_get_child_def
        xb_node_get_root_def example_root_def xb_silo_node_create_def example_silo_def)

section \<open>Children\<close>












section \<open>Rejected arguments\<close>

text \<open>
  Claim C7. A \<^verbatim>\<open>NULL\<close> node view is a violated pre-condition, for which a function returning
  a pointer is to return \<^verbatim>\<open>NULL\<close>. \<^verbatim>\<open>xb_node_get_children\<close> has no check of its own: it
  allocates the array, \<^verbatim>\<open>xb_node_get_child\<close> rejects the \<^verbatim>\<open>NULL\<close>, and the caller gets a new
  empty array and not \<^verbatim>\<open>NULL\<close>.
\<close>

theorem children_of_null_is_empty_array:
  "xb_node_get_children None = Some (Some [])"
  by (simp add: xb_node_get_children_def xb_node_get_child_def xb_node_get_children_loop.simps)

text \<open>Every other function with a check returns the sentinel of its type, and nothing else happens.\<close>

lemma null_node_returns_sentinel:
  "xb_node_get_data None key = None
   \<and> xb_node_set_data None key data rc = (None, rc)
   \<and> xb_node_get_root None = None
   \<and> xb_node_get_parent None = None
   \<and> xb_node_get_next None = None
   \<and> xb_node_get_child None = None
   \<and> xb_node_get_text None = None
   \<and> xb_node_get_element None = None
   \<and> xb_node_get_attr None name0 = None
   \<and> xb_node_get_depth None = 0
   \<and> xb_node_query Q None xpath limit = Returned None None
   \<and> xb_node_query_first Q None xpath = Returned None None
   \<and> xb_node_query_text Q None xpath = Returned None None
   \<and> xb_node_query_export Q E None xpath = Returned None None
   \<and> xb_node_query_text_as_uint Q None xpath = Returned G_MAXUINT64 None
   \<and> xb_node_export E None flags = Returned None None"
  by (simp add: xb_node_get_data_def xb_node_set_data_def xb_node_get_root_def
        xb_node_get_parent_def xb_node_get_next_def xb_node_get_child_def xb_node_get_text_def
        xb_node_get_element_def xb_node_get_attr_def xb_node_get_depth_def xb_node_query_def
        xb_node_query_first_def xb_node_query_text_def xb_node_query_export_def
        xb_node_query_text_as_uint_def xb_node_export_def)

lemma null_argument_returns_sentinel:
  "xb_node_get_data self None = None
   \<and> xb_node_set_data self None data rc = (self, rc)
   \<and> xb_node_set_data self key None rc = (self, rc)
   \<and> xb_node_get_attr self None = None
   \<and> xb_node_query Q self None limit = Returned None None
   \<and> xb_node_query_first Q self None = Returned None None
   \<and> xb_node_query_text Q self None = Returned None None
   \<and> xb_node_query_export Q E self None = Returned None None
   \<and> xb_node_query_text_as_uint Q self None = Returned G_MAXUINT64 None"
  by (simp add: xb_node_get_data_def xb_node_set_data_def xb_node_get_attr_def xb_node_query_def
        xb_node_query_first_def xb_node_query_text_def xb_node_query_export_def
        xb_node_query_text_as_uint_def split: option.split)

section \<open>Queries\<close>

text \<open>
  Claim C2, as the code has it. For a node view with the element name \<open>e\<close>, \<open>query\<close> and
  \<open>query-first\<close> hand the evaluator the expression \<open>e/x\<close> (with the limit of the caller, and
  with the limit 1), and so do the helpers built on \<open>query-first\<close>: what each of them returns
  is made from the answer of the evaluator to \<open>e/x\<close> with the limit 1, and from nothing else
  the evaluator could say.
\<close>

theorem query_prefixes_element_name:
  assumes "xb_node_get_element (Some n) = Some e"
  shows "xb_node_query Q (Some n) (Some x) limit =
           (case Q (silo n) (Some n) (e @ ''/'' @ x) limit of
              Inl err \<Rightarrow> Returned None (Some err)
            | Inr results \<Rightarrow> Returned (Some results) None)
         \<and> xb_node_query_first Q (Some n) (Some x) =
           (case Q (silo n) (Some n) (e @ ''/'' @ x) 1 of
              Inl err \<Rightarrow> Returned None (Some err)
            | Inr [] \<Rightarrow> Invalid_read
            | Inr (r # rs) \<Rightarrow> Returned (Some r) None)
         \<and> xb_node_query_text Q (Some n) (Some x) =
           (case Q (silo n) (Some n) (e @ ''/'' @ x) 1 of
              Inl err \<Rightarrow> Returned None (Some err)
            | Inr [] \<Rightarrow> Invalid_read
            | Inr (r # rs) \<Rightarrow>
                (case xb_node_get_text (Some r) of
                   None \<Rightarrow>
                     Returned None
                       (Some (g_error_new_literal G_IO_ERROR G_IO_ERROR_NOT_FOUND ''no text data''))
                 | Some tmp \<Rightarrow> Returned (Some tmp) None))
         \<and> xb_node_query_text_as_uint Q (Some n) (Some x) =
           (case Q (silo n) (Some n) (e @ ''/'' @ x) 1 of
              Inl err \<Rightarrow> Returned G_MAXUINT64 (Some err)
            | Inr [] \<Rightarrow> Invalid_read
            | Inr (r # rs) \<Rightarrow>
                (case xb_node_get_text (Some r) of
                   None \<Rightarrow>
                     Returned G_MAXUINT64
                       (Some (g_error_new_literal G_IO_ERROR G_IO_ERROR_NOT_FOUND ''no text data''))
                 | Some tmp \<Rightarrow>
                     Returned (if g_str_has_prefix tmp ''0x'' then g_ascii_strtoull (drop 2 tmp) 16
                               else g_ascii_strtoull tmp 10) None))
         \<and> xb_node_query_export Q E (Some n) (Some x) =
           (case Q (silo n) (Some n) (e @ ''/'' @ x) 1 of
              Inl err \<Rightarrow> Returned None (Some err)
            | Inr [] \<Rightarrow> Invalid_read
            | Inr (r # rs) \<Rightarrow> xb_node_export E (Some r) XB_NODE_EXPORT_FLAG_NONE)
         \<and> (\<forall>Q'. Q' (silo n) (Some n) (e @ ''/'' @ x) 1 = Q (silo n) (Some n) (e @ ''/'' @ x) 1 \<longrightarrow>
               xb_node_query_text Q' (Some n) (Some x) = xb_node_query_text Q (Some n) (Some x)
             \<and> xb_node_query_text_as_uint Q' (Some n) (Some x) = xb_node_query_text_as_uint Q (Some n) (Some x)
             \<and> xb_node_query_export Q' E (Some n) (Some x) = xb_node_query_export Q E (Some n) (Some x))"
proof -
  have first: "xb_node_query_first Q' (Some n) (Some x) =
      (case Q' (silo n) (Some n) (e @ ''/'' @ x) 1 of
         Inl err \<Rightarrow> Returned None (Some err)
       | Inr [] \<Rightarrow> Invalid_read
       | Inr (r # rs) \<Rightarrow> Returned (Some r) None)" for Q'
    using assms by (simp add: xb_node_query_first_eval g_strjoin_element)
  have query: "xb_node_query Q (Some n) (Some x) limit =
      (case Q (silo n) (Some n) (e @ ''/'' @ x) limit of
         Inl err \<Rightarrow> Returned None (Some err)
       | Inr results \<Rightarrow> Returned (Some results) None)"
    using assms by (simp add: xb_node_query_def xb_node_get_silo_def g_strjoin_element)
  have q_text: "xb_node_query_text Q' (Some n) (Some x) =
      (case Q' (silo n) (Some n) (e @ ''/'' @ x) 1 of
         Inl err \<Rightarrow> Returned None (Some err)
       | Inr [] \<Rightarrow> Invalid_read
       | Inr (r # rs) \<Rightarrow>
           (case xb_node_get_text (Some r) of
              None \<Rightarrow>
                Returned None
                  (Some (g_error_new_literal G_IO_ERROR G_IO_ERROR_NOT_FOUND ''no text data''))
            | Some tmp \<Rightarrow> Returned (Some tmp) None))" for Q'
    by (simp add: xb_node_query_text_def first g_set_error_literal_def
          split: sum.split list.split option.split)
  have q_uint: "xb_node_query_text_as_uint Q' (Some n) (Some x) =
      (case Q' (silo n) (Some n) (e @ ''/'' @ x) 1 of
         Inl err \<Rightarrow> Returned G_MAXUINT64 (Some err)
       | Inr [] \<Rightarrow> Invalid_read
       | Inr (r # rs) \<Rightarrow>
           (case xb_node_get_text (Some r) of
              None \<Rightarrow>
                Returned G_MAXUINT64
                  (Some (g_error_new_literal G_IO_ERROR G_IO_ERROR_NOT_FOUND ''no text data''))
            | Some tmp \<Rightarrow>
                Returned (if g_str_has_prefix tmp ''0x'' then g_ascii_strtoull (drop 2 tmp) 16
                          else g_ascii_strtoull tmp 10) None))" for Q'
    by (simp add: xb_node_query_text_as_uint_def first g_set_error_literal_def
          split: sum.split list.split option.split)
  have q_export: "xb_node_query_export Q' E (Some n) (Some x) =
      (case Q' (silo n) (Some n) (e @ ''/'' @ x) 1 of
         Inl err \<Rightarrow> Returned None (Some err)
       | Inr [] \<Rightarrow> Invalid_read
       | Inr (r # rs) \<Rightarrow> xb_node_export E (Some r) XB_NODE_EXPORT_FLAG_NONE)" for Q'
    by (simp add: xb_node_query_export_def first split: sum.split list.split)
  have agree: "xb_node_query_text Q' (Some n) (Some x) = xb_node_query_text Q (Some n) (Some x)
      \<and> xb_node_query_text_as_uint Q' (Some n) (Some x) = xb_node_query_text_as_uint Q (Some n) (Some x)
      \<and> xb_node_query_export Q' E (Some n) (Some x) = xb_node_query_export Q E (Some n) (Some x)"
    if "Q' (silo n) (Some n) (e @ ''/'' @ x) 1 = Q (silo n) (Some n) (e @ ''/'' @ x) 1" for Q'
    using that by (simp only: q_text q_uint q_export)
  show ?thesis
    using query first [of Q] q_text [of Q] q_uint [of Q] q_export [of Q] agree by blast
qed

text \<open>
  On the example, whose root is \<^verbatim>\<open>a\<close>: the evaluator is asked for \<^verbatim>\<open>a/b\<close>, by \<open>query\<close> and by
  the helpers.
\<close>

theorem query_prefixes_element_name_witness:
  "xb_node_get_element (Some (example_root None)) = Some ''a''
   \<and> xb_node_query echo_evaluator (Some (example_root None)) (Some ''b'') 0
       = Returned None (Some (g_error_new_literal G_IO_ERROR G_IO_ERROR_NOT_FOUND ''a/b''))
   \<and> xb_node_query_text echo_evaluator (Some (example_root None)) (Some ''b'')
       = Returned None (Some (g_error_new_literal G_IO_ERROR G_IO_ERROR_NOT_FOUND ''a/b''))
   \<and> xb_node_query_text_as_uint echo_evaluator (Some (example_root None)) (Some ''b'')
       = Returned G_MAXUINT64 (Some (g_error_new_literal G_IO_ERROR G_IO_ERROR_NOT_FOUND ''a/b''))
   \<and> xb_node_query example_evaluator (Some (example_root None)) (Some ''b'') 0
       = Returned (Some [xb_silo_node_create (example_silo None) 1]) None"
proof -
  have h: "xb_node_get_element (Some (example_root None)) = Some ''a''"
    by (rule example_element)
  have echo: "echo_evaluator S anchor xpath limit
      = Inl (g_error_new_literal G_IO_ERROR G_IO_ERROR_NOT_FOUND xpath)" for S anchor xpath limit
    by (simp add: echo_evaluator_def)
  show ?thesis
    using h query_prefixes_element_name [OF h, of echo_evaluator "''b''" 0]
          query_prefixes_element_name [OF h, of example_evaluator "''b''" 0]
    by (simp only: echo example_evaluator_b) simp
qed

text \<open>
  The claim as it was stated fails for a node view whose silo node has no element name:
  \<^verbatim>\<open>g_strjoin\<close> ends at the \<^verbatim>\<open>NULL\<close>, and the evaluator is handed the empty expression, with
  neither a name nor the separator nor the expression of the caller in it.
\<close>

theorem query_prefixes_element_name_counterexample:
  "xb_node_get_element (Some (xb_silo_node_create nameless_silo 0)) = None
   \<and> xb_node_query echo_evaluator (Some (xb_silo_node_create nameless_silo 0)) (Some ''b'') 0
       = Returned None (Some (g_error_new_literal G_IO_ERROR G_IO_ERROR_NOT_FOUND []))
   \<and> xb_node_query_first echo_evaluator (Some (xb_silo_node_create nameless_silo 0)) (Some ''b'')
       = Returned None (Some (g_error_new_literal G_IO_ERROR G_IO_ERROR_NOT_FOUND []))"
  by (simp add: xb_node_get_element_def xb_node_query_def xb_node_query_first_def
        xb_node_get_silo_def xb_silo_node_create_def nameless_silo_def example_silo_def
        g_strjoin_no_element echo_evaluator_def)

text \<open>
  Claim C3. \<open>query-first\<close> is \<open>query\<close> with the limit 1: when \<open>query\<close> fails, \<open>query-first\<close>
  fails with the same error (\<^emph>\<open>not-found\<close> when that is the error), and the other way round;
  when \<open>query\<close> returns matches, \<open>query-first\<close> returns the first of them; and when both
  succeed, the node of \<open>query-first\<close> is the first element of the result of \<open>query\<close>.
\<close>

theorem query_first_is_query_limit_1:
  "(\<forall>err. xb_node_query Q self xpath 1 = Returned None err \<longrightarrow>
       xb_node_query_first Q self xpath = Returned None err)
   \<and> (\<forall>m rs err. xb_node_query Q self xpath 1 = Returned (Some (m # rs)) err \<longrightarrow>
       xb_node_query_first Q self xpath = Returned (Some m) err)
   \<and> (\<forall>err. xb_node_query_first Q self xpath = Returned None err \<longrightarrow>
       xb_node_query Q self xpath 1 = Returned None err)
   \<and> (\<forall>m rs err err'. xb_node_query_first Q self xpath = Returned (Some m) err
         \<and> xb_node_query Q self xpath 1 = Returned (Some rs) err' \<longrightarrow>
       rs \<noteq> [] \<and> m = hd rs \<and> err = err')"
  by (cases self; cases xpath)
     (auto simp: xb_node_query_def xb_node_query_first_def g_ptr_array_index_0
           split: sum.splits list.splits)

lemma example_query_b:
  "xb_node_query example_evaluator (Some (example_root t)) (Some ''b'') limit
     = Returned (Some [xb_silo_node_create (example_silo t) 1]) None"
  using example_evaluator_b [of t limit]
  by (simp add: xb_node_query_def xb_node_get_silo_def example_element g_strjoin_element)

lemma example_query_c:
  "xb_node_query example_evaluator (Some (example_root t)) (Some ''c'') limit
     = Returned None (Some no_results)"
  using example_evaluator_c [of t limit]
  by (simp add: xb_node_query_def xb_node_get_silo_def example_element g_strjoin_element)

theorem query_first_is_query_limit_1_witness:
  "xb_node_query example_evaluator (Some (example_root None)) (Some ''b'') 1
     = Returned (Some [xb_silo_node_create (example_silo None) 1]) None
   \<and> xb_node_query_first example_evaluator (Some (example_root None)) (Some ''b'')
     = Returned (Some (xb_silo_node_create (example_silo None) 1)) None
   \<and> xb_node_query example_evaluator (Some (example_root None)) (Some ''c'') 1
     = Returned None (Some no_results)
   \<and> xb_node_query_first example_evaluator (Some (example_root None)) (Some ''c'')
     = Returned None (Some no_results)"
proof -
  have b: "xb_node_query_first example_evaluator (Some (example_root None)) (Some ''b'')
      = Returned (Some (xb_silo_node_create (example_silo None) 1)) None"
    using query_first_is_query_limit_1
            [of example_evaluator "Some (example_root None)" "Some ''b''",
             THEN conjunct2, THEN conjunct1, rule_format, OF example_query_b] .
  have c: "xb_node_query_first example_evaluator (Some (example_root None)) (Some ''c'')
      = Returned None (Some no_results)"
    using query_first_is_query_limit_1
            [of example_evaluator "Some (example_root None)" "Some ''c''",
             THEN conjunct1, rule_format, OF example_query_c] .
  show ?thesis
    using b c example_query_b [of None 1] example_query_c [of None 1] by blast
qed

text \<open>
  Claim C10. \<open>query-first\<close> reads element 0 of the array whenever the evaluator returns one.
  When the evaluator fails, \<open>query-first\<close> returns none with the error of the evaluator; when
  the array is not empty, the read is inside the array and its element is returned; on an
  empty array the read is outside it.
\<close>

theorem query_first_reads_element_0:
  "(\<forall>e. Q (silo n) (Some n) (g_strjoin ''/'' [xb_node_get_element (Some n), Some x]) 1 = Inl e \<longrightarrow>
       xb_node_query_first Q (Some n) (Some x) = Returned None (Some e))
   \<and> (\<forall>rs. Q (silo n) (Some n) (g_strjoin ''/'' [xb_node_get_element (Some n), Some x]) 1 = Inr rs \<longrightarrow>
       rs \<noteq> [] \<longrightarrow>
       g_ptr_array_index rs 0 = Some (rs ! 0)
       \<and> xb_node_query_first Q (Some n) (Some x) = Returned (Some (rs ! 0)) None)
   \<and> (Q (silo n) (Some n) (g_strjoin ''/'' [xb_node_get_element (Some n), Some x]) 1 = Inr [] \<longrightarrow>
       xb_node_query_first Q (Some n) (Some x) = Invalid_read)"
  by (auto simp: xb_node_query_first_eval g_ptr_array_index_def split: list.splits)

theorem query_first_reads_element_0_witness:
  "xb_node_query_first example_evaluator (Some (example_root None)) (Some ''c'')
     = Returned None (Some no_results)
   \<and> xb_node_query_first example_evaluator (Some (example_root None)) (Some ''b'')
     = Returned (Some (xb_silo_node_create (example_silo None) 1)) None
   \<and> xb_node_query_first (\<lambda>S anchor xpath limit. Inr []) (Some (example_root None)) (Some ''b'')
     = Invalid_read"
  using query_first_reads_element_0 [of example_evaluator "example_root None" "''c''"]
        query_first_reads_element_0 [of example_evaluator "example_root None" "''b''"]
        query_first_reads_element_0
          [of "\<lambda>S anchor xpath limit. Inr []" "example_root None" "''b''"]
        example_evaluator_b [of None 1] example_evaluator_c [of None 1]
  by (simp add: example_element g_strjoin_element)

text \<open>
  Claim C4. \<open>query-text\<close> returns the text of the first match. It fails with \<^emph>\<open>not-found\<close> in
  two cases and no other: the evaluator reports \<^emph>\<open>not-found\<close>, which is how it answers a query
  with no match, or the first match has no text; in the second case the error is set here
  and \<^verbatim>\<open>NULL\<close> is returned.
\<close>

theorem query_text_not_found_cases:
  "(\<forall>m rs t. Q (silo n) (Some n) (g_strjoin ''/'' [xb_node_get_element (Some n), Some x]) 1 = Inr (m # rs) \<longrightarrow>
       xb_node_get_text (Some m) = Some t \<longrightarrow>
       xb_node_query_text Q (Some n) (Some x) = Returned (Some t) None)
   \<and> (\<forall>m rs. Q (silo n) (Some n) (g_strjoin ''/'' [xb_node_get_element (Some n), Some x]) 1 = Inr (m # rs) \<longrightarrow>
       xb_node_get_text (Some m) = None \<longrightarrow>
       xb_node_query_text Q (Some n) (Some x) =
         Returned None (Some (g_error_new_literal G_IO_ERROR G_IO_ERROR_NOT_FOUND ''no text data'')))
   \<and> ((\<exists>e. xb_node_query_text Q (Some n) (Some x) = Returned None (Some e)
            \<and> g_error_matches (Some e) G_IO_ERROR G_IO_ERROR_NOT_FOUND)
        = ((\<exists>e. Q (silo n) (Some n) (g_strjoin ''/'' [xb_node_get_element (Some n), Some x]) 1 = Inl e
                \<and> g_error_matches (Some e) G_IO_ERROR G_IO_ERROR_NOT_FOUND)
           \<or> (\<exists>m rs. Q (silo n) (Some n) (g_strjoin ''/'' [xb_node_get_element (Some n), Some x]) 1 = Inr (m # rs)
                \<and> xb_node_get_text (Some m) = None)))"
  by (auto simp: xb_node_query_text_def xb_node_query_first_eval g_set_error_literal_def
        g_error_matches_def g_error_new_literal_def
        split: sum.splits list.splits option.splits)

theorem query_text_not_found_cases_witness:
  "xb_node_query_text example_evaluator (Some (example_root (Some ''hi''))) (Some ''b'')
     = Returned (Some ''hi'') None
   \<and> xb_node_query_text example_evaluator (Some (example_root None)) (Some ''b'')
     = Returned None (Some (g_error_new_literal G_IO_ERROR G_IO_ERROR_NOT_FOUND ''no text data''))"
  using query_text_not_found_cases [of example_evaluator "example_root (Some ''hi'')" "''b''"]
        query_text_not_found_cases [of example_evaluator "example_root None" "''b''"]
        example_evaluator_b [of "Some ''hi''" 1] example_evaluator_b [of None 1]
  by (simp add: example_element g_strjoin_element example_text)

text \<open>
  Claim C1, as the code has it. \<open>query-text-as-uint\<close> returns \<^verbatim>\<open>G_MAXUINT64\<close> with the error of
  the evaluator when the query fails, and \<^verbatim>\<open>G_MAXUINT64\<close> with \<^emph>\<open>not-found\<close> when the first match
  has no text. Otherwise it returns what the parser makes of the text, in base 16 after a
  \<^verbatim>\<open>0x\<close> and in base 10 otherwise, and sets no error: no text is unparseable to it, and \<^verbatim>\<open>nope\<close>
  is 0. So an error comes with \<^verbatim>\<open>G_MAXUINT64\<close>, but \<^verbatim>\<open>G_MAXUINT64\<close> may come without an error.
\<close>

theorem query_text_as_uint_returns_parser_value:
  "(\<forall>e. Q (silo n) (Some n) (g_strjoin ''/'' [xb_node_get_element (Some n), Some x]) 1 = Inl e \<longrightarrow>
       xb_node_query_text_as_uint Q (Some n) (Some x) = Returned G_MAXUINT64 (Some e))
   \<and> (\<forall>m rs. Q (silo n) (Some n) (g_strjoin ''/'' [xb_node_get_element (Some n), Some x]) 1 = Inr (m # rs) \<longrightarrow>
       xb_node_get_text (Some m) = None \<longrightarrow>
       xb_node_query_text_as_uint Q (Some n) (Some x) =
         Returned G_MAXUINT64 (Some (g_error_new_literal G_IO_ERROR G_IO_ERROR_NOT_FOUND ''no text data'')))
   \<and> (\<forall>m rs t. Q (silo n) (Some n) (g_strjoin ''/'' [xb_node_get_element (Some n), Some x]) 1 = Inr (m # rs) \<longrightarrow>
       xb_node_get_text (Some m) = Some t \<longrightarrow>
       xb_node_query_text_as_uint Q (Some n) (Some x) =
         Returned (if g_str_has_prefix t ''0x'' then g_ascii_strtoull (drop 2 t) 16
                   else g_ascii_strtoull t 10) None)
   \<and> (\<forall>v e. xb_node_query_text_as_uint Q (Some n) (Some x) = Returned v (Some e) \<longrightarrow>
       v = G_MAXUINT64)
   \<and> g_ascii_strtoull ''nope'' 10 = 0"
  by (auto simp: strtoull_nope xb_node_query_text_as_uint_def xb_node_query_first_eval g_set_error_literal_def
        split: sum.splits list.splits option.splits if_splits)

theorem query_text_as_uint_witness:
  "xb_node_query_text_as_uint example_evaluator (Some (example_root (Some ''0x2a''))) (Some ''b'')
     = Returned 42 None"
proof -
  have q: "example_evaluator (silo (example_root (Some ''0x2a''))) (Some (example_root (Some ''0x2a'')))
      (g_strjoin ''/'' [xb_node_get_element (Some (example_root (Some ''0x2a''))), Some ''b'']) 1
      = Inr [xb_silo_node_create (example_silo (Some ''0x2a'')) 1]"
    by (simp add: example_evaluator_def example_root_def xb_silo_node_create_def example_silo_def
          xb_node_get_element_def g_strjoin_element)
  show ?thesis
    using query_text_as_uint_returns_parser_value
      [of example_evaluator "example_root (Some ''0x2a'')" "''b''"] q
    by (simp add: example_text strtoull_2a g_str_has_prefix_def)
qed

text \<open>
  The claim as it was stated fails on scenario 4, \<^verbatim>\<open><a><b>nope</b></a>\<close>: the result is 0 and no
  error is set. And the text \<^verbatim>\<open>18446744073709551615\<close> gives \<^verbatim>\<open>G_MAXUINT64\<close> with no error.
\<close>

theorem query_text_as_uint_counterexample:
  "xb_node_query_text_as_uint example_evaluator (Some (example_root (Some ''nope''))) (Some ''b'')
     = Returned 0 None
   \<and> (0 :: guint64) \<noteq> G_MAXUINT64
   \<and> xb_node_query_text_as_uint example_evaluator
        (Some (example_root (Some ''18446744073709551615''))) (Some ''b'')
     = Returned G_MAXUINT64 None"
  by (simp add: xb_node_query_text_as_uint_def example_query_first example_text
        g_str_has_prefix_def strtoull_nope strtoull_max)
     (simp add: G_MAXUINT64_def)

section \<open>References held by a node view\<close>

lemma fold_g_bytes_unref:
  "fold (\<lambda>entry. g_bytes_unref (snd entry)) xs rc a = rc a - count_list (map snd xs) a"
  by (induction xs arbitrary: rc) (auto simp: g_bytes_unref_def)

lemma count_update:
  "count_list (map snd (AList.update k d xs)) a + (if map_of xs k = Some a then 1 else 0) =
     count_list (map snd xs) a + (if a = d then 1 else 0)"
  by (induction xs) auto

lemma count_map_of:
  "map_of xs k = Some old \<Longrightarrow> 0 < count_list (map snd xs) old"
  by (induction xs) (auto split: if_splits)

text \<open>
  Claim C8, as the code has it. Creating a node view changes no reference count: the view
  stores the pointer to its silo and takes no reference. \<open>set-data\<close> takes one reference to
  the buffer it installs and drops the one to the buffer it replaces, so that at every address
  the count is the references of the others plus the entries of the map that hold it; the
  silo, which no entry holds, keeps its count. Destroying the node view drops one reference
  for every entry and none to the silo.
\<close>

theorem node_view_reference_counts:
  "snd (xb_node_new S s rc) = rc
   \<and> silo (fst (xb_node_new S s rc)) = S
   \<and> held (fst (xb_node_new S s rc)) a = 0
   \<and> (\<forall>n' rc'. xb_node_set_data (Some n) (Some k) (Some d) rc = (Some n', rc') \<longrightarrow>
         held n a \<le> rc a \<longrightarrow>
         rc' a + held n a = rc a + held n' a
         \<and> xb_node_get_data (Some n') (Some k) = Some d
         \<and> silo n' = silo n)
   \<and> xb_node_finalize n rc a = rc a - held n a"
proof -
  have set_data: "rc' a + held n a = rc a + held n' a"
    if "xb_node_set_data (Some n) (Some k) (Some d) rc = (Some n', rc')" "held n a \<le> rc a"
    for n' rc'
  proof (cases "map_of (qdata n) k")
    case None
    with that count_update [of k d "qdata n" a] show ?thesis
      by (auto simp: xb_node_set_data_def g_object_set_data_full_def held_def
            g_bytes_ref_def)
  next
    case (Some old)
    with that count_map_of [OF Some] count_update [of k d "qdata n" a] show ?thesis
      by (auto simp: xb_node_set_data_def g_object_set_data_full_def held_def
            g_bytes_ref_def g_bytes_unref_def split: if_splits)
  qed
  have get: "xb_node_get_data (Some n') (Some k) = Some d \<and> silo n' = silo n"
    if "xb_node_set_data (Some n) (Some k) (Some d) rc = (Some n', rc')" for n' rc'
    using that
    by (auto simp: xb_node_set_data_def g_object_set_data_full_def xb_node_get_data_def
          g_object_get_data_def update_conv')
  show ?thesis
    using set_data get
    by (simp add: xb_node_new_def held_def xb_node_finalize_def g_object_finalize_def
          fold_g_bytes_unref)
qed

theorem node_view_reference_counts_witness:
  "fst (xb_node_set_data (Some (fst (xb_node_new (example_silo None) 0 one_owner)))
         (Some ''fwupd::RemoteId'') (Some 7) one_owner)
     = Some \<lparr>qdata = [(''fwupd::RemoteId'', 7)], silo = example_silo None, sn = 0\<rparr>
   \<and> snd (xb_node_set_data (Some (fst (xb_node_new (example_silo None) 0 one_owner)))
         (Some ''fwupd::RemoteId'') (Some 7) one_owner) 7 = 1"
  using node_view_reference_counts
    [of "example_silo None" 0 one_owner 7 "fst (xb_node_new (example_silo None) 0 one_owner)"
        "''fwupd::RemoteId''" 7]
  by (simp add: xb_node_new_def xb_node_set_data_def g_object_set_data_full_def g_bytes_ref_def
        one_owner_def held_def)

text \<open>
  The claim as it was stated fails: after a node view is created on a silo that only its
  creator references, the count of the silo is still 1, and when the creator drops that
  reference the silo is released, with the node view still there.
\<close>

theorem node_view_silo_reference_counterexample:
  "silo_object (silo (fst (xb_node_new (example_silo None) 0 one_owner))) = 100
   \<and> snd (xb_node_new (example_silo None) 0 one_owner) 100 = 1
   \<and> g_object_unref 100 (snd (xb_node_new (example_silo None) 0 one_owner)) 100 = 0"
  by (simp add: xb_node_new_def example_silo_def one_owner_def g_object_unref_def)

section \<open>Exit code and output of the tool\<close>





lemma tool_errors_are_failed:
  "g_error_matches (Some xb_tool_dump_error) G_IO_ERROR G_IO_ERROR_FAILED
   \<and> g_error_matches (Some xb_tool_query_error) G_IO_ERROR G_IO_ERROR_FAILED
   \<and> g_error_matches (Some xb_tool_compile_error) G_IO_ERROR G_IO_ERROR_FAILED
   \<and> g_error_matches (Some (g_error_new_literal G_IO_ERROR G_IO_ERROR_FAILED ''Command not found''))
        G_IO_ERROR G_IO_ERROR_FAILED"
  by (simp add: g_error_matches_def xb_tool_dump_error_def xb_tool_query_error_def
        xb_tool_compile_error_def g_error_new_literal_def)

lemma wrong_number_of_arguments:
  "(length values < 1 \<longrightarrow> xb_tool_dump env priv values = (Inl xb_tool_dump_error, [])
                          \<and> xb_tool_export env priv values = (Inl xb_tool_dump_error, []))
   \<and> (length values \<noteq> 2 \<longrightarrow> xb_tool_query env priv values = (Inl xb_tool_query_error, []))
   \<and> (length values < 2 \<longrightarrow> xb_tool_compile env priv values = (Inl xb_tool_compile_error, []))"
  by (simp add: xb_tool_dump_def xb_tool_export_def xb_tool_query_def xb_tool_compile_def)






end
